theory Spec2Isabelle
  imports Main
begin

section \<open>Strings and URL query parameters\<close>

text \<open>
  Query-parameter names and values are strings of bytes (the UTF-8 form in which they
  travel inside a URL).  A \<open>URLSearchParams\<close> object is an ordered list of name/value
  pairs; duplicates are allowed, and \<open>get\<close> reads the first pair with the given name.
\<close>

type_synonym params = "(string \<times> string) list"

fun searchParams_get :: "params \<Rightarrow> string \<Rightarrow> string option" where
  "searchParams_get [] n = None"
| "searchParams_get ((k, v) # ps) n = (if k = n then Some v else searchParams_get ps n)"

text \<open>
  \<open>URLSearchParams.set(name, value)\<close>: when a pair with that name exists, the first one
  gets the new value and the others are removed; otherwise the pair is appended.
\<close>

fun searchParams_set :: "params \<Rightarrow> string \<Rightarrow> string \<Rightarrow> params" where
  "searchParams_set [] n v = [(n, v)]"
| "searchParams_set ((k, x) # ps) n v =
     (if k = n then (n, v) # filter (\<lambda>p. fst p \<noteq> n) ps
      else (k, x) # searchParams_set ps n v)"

text \<open>
  JavaScript's \<open>a || d\<close> on a \<open>string | null\<close>: \<open>null\<close> and the empty string are both
  falsy, so both select the default.
\<close>

fun or_default :: "string option \<Rightarrow> string \<Rightarrow> string" where
  "or_default None d = d"
| "or_default (Some v) d = (if v = [] then d else v)"

subsection \<open>Serialising a query (\<open>URL.toString\<close>)\<close>

text \<open>
  The \<open>application/x-www-form-urlencoded\<close> serialiser used by \<open>URL.searchParams\<close>:
  ASCII letters, digits and \<open>* - . _\<close> are kept, a space becomes \<open>+\<close>, and every other
  byte becomes \<open>%XX\<close> with upper-case hexadecimal digits.
\<close>

definition is_alnum :: "char \<Rightarrow> bool" where
  "is_alnum c =
     (let n = (of_char c :: nat)
      in (48 \<le> n \<and> n \<le> 57) \<or> (65 \<le> n \<and> n \<le> 90) \<or> (97 \<le> n \<and> n \<le> 122))"

definition is_urlencoded_safe :: "char \<Rightarrow> bool" where
  "is_urlencoded_safe c =
     (is_alnum c \<or> c = CHR ''*'' \<or> c = CHR ''-'' \<or> c = CHR ''.'' \<or> c = CHR ''_'')"

definition hex_digit :: "nat \<Rightarrow> char" where
  "hex_digit n = (if n < 10 then char_of (48 + n) else char_of (55 + n))"

definition urlencode_byte :: "char \<Rightarrow> string" where
  "urlencode_byte c =
     (if c = CHR '' '' then ''+''
      else if is_urlencoded_safe c then [c]
      else [CHR ''%'', hex_digit ((of_char c :: nat) div 16),
            hex_digit ((of_char c :: nat) mod 16)])"

definition urlencode :: "string \<Rightarrow> string" where
  "urlencode s = concat (map urlencode_byte s)"

fun serialize_params :: "params \<Rightarrow> string" where
  "serialize_params [] = []"
| "serialize_params [(k, v)] = urlencode k @ ''='' @ urlencode v"
| "serialize_params ((k, v) # p # ps) =
     urlencode k @ ''='' @ urlencode v @ ''&'' @ serialize_params (p # ps)"

text \<open>
  A URL object as far as the builder uses it: the part before the query (scheme, host
  and path, fixed by the configuration) and the query's parameter list.
\<close>

record url =
  url_base :: string
  url_searchParams :: params

definition url_toString :: "url \<Rightarrow> string" where
  "url_toString u =
     (if url_searchParams u = [] then url_base u
      else url_base u @ ''?'' @ serialize_params (url_searchParams u))"

section \<open>Configuration\<close>

text \<open>
  \<open>CONFIG\<close>: the upstream credential comes from the environment; the upstream endpoint
  is the fixed string of the source.
\<close>

record config =
  deepgramApiKey :: string

definition deepgramSttUrl :: string where
  "deepgramSttUrl = ''wss://api.deepgram.com/v1/listen''"

section \<open>Upstream URL builder\<close>

text \<open>
  \<open>buildDeepgramUrl\<close>, statement by statement: the parameter list of the new URL after
  all \<open>set\<close> calls, and the string returned by \<open>toString\<close>.
\<close>

definition set_optional :: "params \<Rightarrow> string \<Rightarrow> string option \<Rightarrow> params" where
  "set_optional ps n x = (case x of None \<Rightarrow> ps | Some v \<Rightarrow> searchParams_set ps n v)"

definition buildDeepgramParams :: "config \<Rightarrow> params \<Rightarrow> params" where
  "buildDeepgramParams cfg queryParams =
     (let p0 = searchParams_set [] ''token'' (deepgramApiKey cfg);
          p1 = searchParams_set p0 ''model'' (or_default (searchParams_get queryParams ''model'') ''nova-3'');
          p2 = searchParams_set p1 ''language'' (or_default (searchParams_get queryParams ''language'') ''en'');
          p3 = searchParams_set p2 ''encoding'' (or_default (searchParams_get queryParams ''encoding'') ''linear16'');
          p4 = searchParams_set p3 ''sample_rate'' (or_default (searchParams_get queryParams ''sample_rate'') ''16000'');
          p5 = searchParams_set p4 ''channels'' (or_default (searchParams_get queryParams ''channels'') ''1'');
          p6 = searchParams_set p5 ''smart_format'' (or_default (searchParams_get queryParams ''smart_format'') ''true'');
          punctuate = searchParams_get queryParams ''punctuate'';
          diarize = searchParams_get queryParams ''diarize'';
          fillerWords = searchParams_get queryParams ''filler_words'';
          p7 = set_optional p6 ''punctuate'' punctuate;
          p8 = set_optional p7 ''diarize'' diarize;
          p9 = set_optional p8 ''filler_words'' fillerWords
      in p9)"

definition buildDeepgramUrl :: "config \<Rightarrow> params \<Rightarrow> string" where
  "buildDeepgramUrl cfg queryParams =
     url_toString \<lparr>url_base = deepgramSttUrl,
                   url_searchParams = buildDeepgramParams cfg queryParams\<rparr>"

subsection \<open>Reading the parameters of a URL string\<close>

text \<open>
  What the receiver of the URL sees: the query is the text after the first \<open>?\<close> (the
  URLs built here have no fragment), it is split at \<open>&\<close>, each non-empty piece is split
  at its first \<open>=\<close>, and name and value are decoded (\<open>+\<close> is a space, \<open>%XX\<close> is the byte
  with that hexadecimal code).
\<close>

definition hex_val :: "char \<Rightarrow> nat option" where
  "hex_val c =
     (let n = (of_char c :: nat)
      in if 48 \<le> n \<and> n \<le> 57 then Some (n - 48)
         else if 65 \<le> n \<and> n \<le> 70 then Some (n - 55)
         else if 97 \<le> n \<and> n \<le> 102 then Some (n - 87)
         else None)"

fun urldecode :: "string \<Rightarrow> string" where
  "urldecode [] = []"
| "urldecode (c # cs) =
     (if c = CHR ''+'' then CHR '' '' # urldecode cs
      else if c = CHR ''%'' then
        (case cs of
           h # l # rest \<Rightarrow>
             (case (hex_val h, hex_val l) of
                (Some a, Some b) \<Rightarrow> char_of (16 * a + b) # urldecode rest
              | _ \<Rightarrow> c # urldecode cs)
         | _ \<Rightarrow> c # urldecode cs)
      else c # urldecode cs)"

fun split_on :: "char \<Rightarrow> string \<Rightarrow> string list" where
  "split_on d [] = [[]]"
| "split_on d (c # cs) =
     (if c = d then [] # split_on d cs
      else (case split_on d cs of
              [] \<Rightarrow> [[c]]
            | p # ps \<Rightarrow> (c # p) # ps))"

definition parse_pair :: "string \<Rightarrow> string \<times> string" where
  "parse_pair s =
     (urldecode (takeWhile (\<lambda>c. c \<noteq> CHR ''='') s),
      urldecode (drop 1 (dropWhile (\<lambda>c. c \<noteq> CHR ''='') s)))"

definition parse_query :: "string \<Rightarrow> params" where
  "parse_query q = map parse_pair (filter (\<lambda>s. s \<noteq> []) (split_on (CHR ''&'') q))"

definition url_query :: "string \<Rightarrow> string" where
  "url_query u = drop 1 (dropWhile (\<lambda>c. c \<noteq> CHR ''?'') u)"

definition url_param :: "string \<Rightarrow> string \<Rightarrow> string option" where
  "url_param u n = searchParams_get (parse_query (url_query u)) n"

section \<open>Token validator\<close>

text \<open>
  The value of the \<open>sec-websocket-protocol\<close> header is a string of 8-bit code units
  (\<open>None\<close> when the header is absent).  \<open>String.prototype.trim\<close> removes white space at
  both ends; among 8-bit code units these are tab, line feed, vertical tab, form feed,
  carriage return, space and the no-break space.
\<close>

definition is_js_whitespace :: "char \<Rightarrow> bool" where
  "is_js_whitespace c = ((of_char c :: nat) \<in> {9, 10, 11, 12, 13, 32, 160})"

definition trim :: "string \<Rightarrow> string" where
  "trim s = rev (dropWhile is_js_whitespace (rev (dropWhile is_js_whitespace s)))"

definition startsWith :: "string \<Rightarrow> string \<Rightarrow> bool" where
  "startsWith s p = (take (length p) s = p)"

definition is_token_proto :: "string \<Rightarrow> bool" where
  "is_token_proto p = startsWith p ''access_token.''"

text \<open>\<open>tokenProto.slice("access_token.".length)\<close>\<close>

definition token_of :: "string \<Rightarrow> string" where
  "token_of tokenProto = drop (length ''access_token.'') tokenProto"

text \<open>\<open>protocols.split(",").map((s) => s.trim())\<close>\<close>

definition protocol_list :: "string \<Rightarrow> string list" where
  "protocol_list protocols = map trim (split_on (CHR '','') protocols)"

text \<open>
  \<open>validateWsToken\<close>.  The parameter \<open>verify\<close> stands for \<open>jwt.verify(token, SESSION_SECRET)\<close>
  of the \<open>jsonwebtoken\<close> library: it is true exactly when that call returns instead of
  throwing, that is when the signature is valid for the server's secret and the token
  has not expired at the time of the call.  \<open>!protocols\<close> holds for \<open>null\<close> and for the
  empty string.
\<close>

definition validateWsToken :: "(string \<Rightarrow> bool) \<Rightarrow> string option \<Rightarrow> string option" where
  "validateWsToken verify protocols =
     (case protocols of
        None \<Rightarrow> None
      | Some p \<Rightarrow>
          if p = [] then None
          else (case find is_token_proto (protocol_list p) of
                  None \<Rightarrow> None
                | Some tokenProto \<Rightarrow>
                    (let token = token_of tokenProto
                     in if verify token then Some tokenProto else None)))"

section \<open>Relay sessions\<close>

text \<open>
  A WebSocket frame payload is a string or a buffer.  The relay acts on a socket only by
  calling \<open>send\<close> and \<open>close\<close>; each socket records the calls made on it, in order.
  \<open>CloseCall None\<close> is \<open>close()\<close> without arguments.  An exception thrown by such a call
  inside \<open>try { ... } catch { }\<close> is swallowed, so the call is all that the relay
  contributes.  Console output is not part of the model.
\<close>

datatype message = TextData string | BinaryData string

datatype ws_call = SendCall message | CloseCall "(nat \<times> string) option"

datatype readyState = CONNECTING | OPEN | CLOSING | CLOSED

text \<open>
  The upstream socket created by \<open>new WebSocket(deepgramUrl)\<close>.  Its \<open>readyState\<close> is
  maintained by the runtime; the relay only reads it.
\<close>

record upstream =
  up_url :: string
  up_readyState :: readyState
  up_calls :: "ws_call list"

text \<open>
  The client channel is open, or it has been closed; a closed channel keeps the
  arguments of the \<open>close\<close> call that closed it (\<open>None\<close> for \<open>close()\<close> without arguments).
  A closure that starts on the client's side is entered by the runtime.
\<close>

datatype channel = ChannelOpen | ChannelClosed "(nat \<times> string) option"

text \<open>
  A client connection: \<open>ws.data\<close> (\<open>WsData\<close>), the counter captured by the upstream
  listeners, the calls made on the client socket \<open>ws\<close>, and the state of its channel.
\<close>

record connection =
  data_queryParams :: params
  data_deepgramWs :: "upstream option"
  deepgramMessageCount :: nat
  client_calls :: "ws_call list"
  client_channel :: channel

text \<open>
  The process: the set \<open>activeConnections\<close> in insertion order, the client sockets by
  identity, the URLs for which an upstream \<open>WebSocket\<close> has been constructed, whether
  \<open>server.stop()\<close> has been called, and the status passed to \<open>process.exit\<close>.
\<close>

record server =
  activeConnections :: "nat list"
  connections :: "nat \<Rightarrow> connection"
  websockets_created :: "string list"
  server_stopped :: bool
  exit_code :: "int option"

definition set_add :: "nat list \<Rightarrow> nat \<Rightarrow> nat list" where
  "set_add xs x = (if x \<in> set xs then xs else xs @ [x])"

definition set_delete :: "nat list \<Rightarrow> nat \<Rightarrow> nat list" where
  "set_delete xs x = filter (\<lambda>y. y \<noteq> x) xs"

definition update_connection :: "nat \<Rightarrow> (connection \<Rightarrow> connection) \<Rightarrow> server \<Rightarrow> server" where
  "update_connection ws f s = s\<lparr>connections := (connections s)(ws := f (connections s ws))\<rparr>"

text \<open>A call on the client socket is recorded.\<close>

definition client_call :: "ws_call \<Rightarrow> connection \<Rightarrow> connection" where
  "client_call c conn = conn\<lparr>client_calls := client_calls conn @ [c]\<rparr>"

text \<open>
  \<open>ws.close(code, reason)\<close> and \<open>ws.close()\<close> on the client socket: the call closes a
  channel that is open, with the arguments given, and leaves a channel that is already
  closed as it is (the case that the source's \<open>catch\<close> blocks name: the client may already
  be closed).
\<close>

definition client_close :: "(nat \<times> string) option \<Rightarrow> connection \<Rightarrow> connection" where
  "client_close args conn =
     (client_call (CloseCall args) conn)
       \<lparr>client_channel :=
          (case client_channel conn of
             ChannelOpen \<Rightarrow> ChannelClosed args
           | ChannelClosed first \<Rightarrow> ChannelClosed first)\<rparr>"

text \<open>\<open>deepgramWs.send(message)\<close> and \<open>deepgramWs.close(code, reason)\<close>.\<close>

definition upstream_call :: "ws_call \<Rightarrow> upstream \<Rightarrow> upstream" where
  "upstream_call c u = u\<lparr>up_calls := up_calls u @ [c]\<rparr>"

subsection \<open>\<open>websocket.open\<close> and the upstream listeners\<close>

definition websocket_open :: "config \<Rightarrow> nat \<Rightarrow> server \<Rightarrow> server" where
  "websocket_open cfg ws s =
     (let s1 = s\<lparr>activeConnections := set_add (activeConnections s) ws\<rparr>;
          params = data_queryParams (connections s1 ws);
          deepgramUrl = buildDeepgramUrl cfg params;
          deepgramWs = \<lparr>up_url = deepgramUrl, up_readyState = CONNECTING, up_calls = []\<rparr>;
          s2 = s1\<lparr>websockets_created := websockets_created s1 @ [deepgramUrl]\<rparr>
      in update_connection ws
           (\<lambda>c. c\<lparr>data_deepgramWs := Some deepgramWs, deepgramMessageCount := 0\<rparr>) s2)"

definition deepgramWs_on_open :: "nat \<Rightarrow> server \<Rightarrow> server" where
  "deepgramWs_on_open ws s = s"

definition deepgramWs_on_message :: "nat \<Rightarrow> message \<Rightarrow> server \<Rightarrow> server" where
  "deepgramWs_on_message ws d s =
     update_connection ws
       (\<lambda>c. client_call (SendCall d) (c\<lparr>deepgramMessageCount := deepgramMessageCount c + 1\<rparr>)) s"

definition deepgramWs_on_error :: "nat \<Rightarrow> server \<Rightarrow> server" where
  "deepgramWs_on_error ws s =
     update_connection ws (client_close (Some (1011, ''Deepgram connection error''))) s"

definition deepgramWs_on_close :: "nat \<Rightarrow> nat \<Rightarrow> string \<Rightarrow> server \<Rightarrow> server" where
  "deepgramWs_on_close ws code reason s =
     update_connection ws (client_close (Some (code, reason))) s"

text \<open>
  The events of the upstream socket and the listener that \<open>websocket.open\<close> registers
  for each with \<open>addEventListener\<close>.
\<close>

datatype upstream_event =
    UpstreamOpen
  | UpstreamMessage message
  | UpstreamError
  | UpstreamClose nat string

fun deepgramWs_listener :: "nat \<Rightarrow> upstream_event \<Rightarrow> server \<Rightarrow> server" where
  "deepgramWs_listener ws UpstreamOpen s = deepgramWs_on_open ws s"
| "deepgramWs_listener ws (UpstreamMessage d) s = deepgramWs_on_message ws d s"
| "deepgramWs_listener ws UpstreamError s = deepgramWs_on_error ws s"
| "deepgramWs_listener ws (UpstreamClose code reason) s = deepgramWs_on_close ws code reason s"

fun upstream_events :: "nat \<Rightarrow> upstream_event list \<Rightarrow> server \<Rightarrow> server" where
  "upstream_events ws [] s = s"
| "upstream_events ws (e # es) s = upstream_events ws es (deepgramWs_listener ws e s)"

fun is_closing_event :: "upstream_event \<Rightarrow> bool" where
  "is_closing_event UpstreamError = True"
| "is_closing_event (UpstreamClose code reason) = True"
| "is_closing_event e = False"

subsection \<open>\<open>websocket.message\<close> and \<open>websocket.close\<close>\<close>

definition websocket_message :: "nat \<Rightarrow> message \<Rightarrow> server \<Rightarrow> server" where
  "websocket_message ws m s =
     (case data_deepgramWs (connections s ws) of
        None \<Rightarrow> s
      | Some deepgramWs \<Rightarrow>
          if up_readyState deepgramWs = OPEN
          then update_connection ws
                 (\<lambda>c. c\<lparr>data_deepgramWs := Some (upstream_call (SendCall m) deepgramWs)\<rparr>) s
          else s)"

definition websocket_close :: "nat \<Rightarrow> nat \<Rightarrow> string \<Rightarrow> server \<Rightarrow> server" where
  "websocket_close ws code reason s =
     (let s1 = s\<lparr>activeConnections := set_delete (activeConnections s) ws\<rparr>
      in case data_deepgramWs (connections s1 ws) of
           None \<Rightarrow> s1
         | Some deepgramWs \<Rightarrow>
             if up_readyState deepgramWs = OPEN
             then update_connection ws
                    (\<lambda>c. c\<lparr>data_deepgramWs :=
                       Some (upstream_call (CloseCall (Some (1000, ''Client disconnected''))) deepgramWs)\<rparr>) s1
             else s1)"

section \<open>HTTP entry point\<close>

record request =
  req_method :: string
  req_pathname :: string
  req_searchParams :: params
  req_protocols :: "string option"

text \<open>
  What \<open>fetch\<close> returns.  The session and metadata routes are served by handlers outside
  the relay (token signing, file reading), so only the choice of handler is recorded.
  \<open>Upgraded\<close> is the return of \<open>undefined\<close> after \<open>server.upgrade\<close> succeeded, with the
  \<open>queryParams\<close> stored in \<open>ws.data\<close> (\<open>deepgramWs\<close> is \<open>null\<close> there) and the echoed
  protocol header.
\<close>

datatype fetch_result =
    Response nat string
  | SessionRoute
  | MetadataRoute
  | Upgraded params string

definition handlePreflight :: fetch_result where
  "handlePreflight = Response 204 []"

definition handleHealth :: fetch_result where
  "handleHealth = Response 200 ''{\"status\":\"ok\"}''"

text \<open>
  \<open>upgrade_ok\<close> is the boolean returned by \<open>server.upgrade\<close>.  \<open>!validProto\<close> holds for
  \<open>null\<close> and for the empty string.
\<close>

definition fetch :: "(string \<Rightarrow> bool) \<Rightarrow> bool \<Rightarrow> request \<Rightarrow> fetch_result" where
  "fetch verify upgrade_ok req =
     (if req_method req = ''OPTIONS'' then handlePreflight
      else if req_method req = ''GET'' \<and> req_pathname req = ''/api/session'' then SessionRoute
      else if req_method req = ''GET'' \<and> req_pathname req = ''/api/metadata'' then MetadataRoute
      else if req_method req = ''GET'' \<and> req_pathname req = ''/health'' then handleHealth
      else if req_pathname req = ''/api/live-transcription'' then
        (let validProto = validateWsToken verify (req_protocols req)
         in case validProto of
              None \<Rightarrow> Response 401 ''Unauthorized''
            | Some v \<Rightarrow>
                if v = [] then Response 401 ''Unauthorized''
                else if upgrade_ok then Upgraded (req_searchParams req) v
                else Response 400 ''WebSocket upgrade failed'')
      else Response 404 ''{\"error\":\"Not Found\",\"message\":\"Endpoint not found\"}'')"

text \<open>
  \<open>Bun.serve\<close> for one request: \<open>fetch\<close> runs, and when it upgraded the connection the
  runtime creates the client socket \<open>ws\<close> with the given data and calls
  \<open>websocket.open\<close> on it.  No other path reaches \<open>websocket.open\<close>.
\<close>

definition new_connection :: "params \<Rightarrow> connection" where
  "new_connection qp =
     \<lparr>data_queryParams = qp, data_deepgramWs = None, deepgramMessageCount = 0,
      client_calls = [], client_channel = ChannelOpen\<rparr>"

definition serve_request ::
  "config \<Rightarrow> (string \<Rightarrow> bool) \<Rightarrow> bool \<Rightarrow> nat \<Rightarrow> request \<Rightarrow> server \<Rightarrow> fetch_result \<times> server" where
  "serve_request cfg verify upgrade_ok ws req s =
     (case fetch verify upgrade_ok req of
        Upgraded qp proto \<Rightarrow>
          (Upgraded qp proto,
           websocket_open cfg ws (s\<lparr>connections := (connections s)(ws := new_connection qp)\<rparr>))
      | r \<Rightarrow> (r, s))"

section \<open>Graceful shutdown\<close>

text \<open>
  \<open>ws.close()\<close> on a client socket of the server: the runtime closes the channel and
  runs the \<open>websocket.close\<close> handler for that socket before the call returns.  The
  code and reason that it passes to the handler, and whether the call then returns or
  throws, are not decided by the program, so they are parameters.
\<close>

datatype close_outcome = Throws nat string | Returns nat string

text \<open>
  The body of the \<open>forEach\<close> callback: \<open>try { ws.close() } catch { ... }\<close>.  The \<open>catch\<close>
  block only logs, so a throwing call leaves the state that the call had reached.
\<close>

definition try_close :: "(nat \<Rightarrow> close_outcome) \<Rightarrow> nat \<Rightarrow> server \<Rightarrow> server" where
  "try_close rt ws s =
     (let s1 = update_connection ws (client_close None) s
      in case rt ws of
           Throws code reason \<Rightarrow> websocket_close ws code reason s1
         | Returns code reason \<Rightarrow> websocket_close ws code reason s1)"

text \<open>
  \<open>Set.prototype.forEach\<close> visits the members in insertion order and skips a member that
  has been deleted before its turn.
\<close>

fun forEach_close :: "(nat \<Rightarrow> close_outcome) \<Rightarrow> nat list \<Rightarrow> server \<Rightarrow> server" where
  "forEach_close rt [] s = s"
| "forEach_close rt (ws # rest) s =
     (if ws \<in> set (activeConnections s) then forEach_close rt rest (try_close rt ws s)
      else forEach_close rt rest s)"

definition gracefulShutdown :: "(nat \<Rightarrow> close_outcome) \<Rightarrow> string \<Rightarrow> server \<Rightarrow> server" where
  "gracefulShutdown rt signal s =
     (let s1 = forEach_close rt (activeConnections s) s;
          s2 = s1\<lparr>server_stopped := True\<rparr>
      in s2\<lparr>exit_code := Some 0\<rparr>)"

datatype process_event = SIGTERM | SIGINT | UncaughtException | UnhandledRejection

fun on_process_event :: "(nat \<Rightarrow> close_outcome) \<Rightarrow> process_event \<Rightarrow> server \<Rightarrow> server" where
  "on_process_event rt SIGTERM s = gracefulShutdown rt ''SIGTERM'' s"
| "on_process_event rt SIGINT s = gracefulShutdown rt ''SIGINT'' s"
| "on_process_event rt UncaughtException s = gracefulShutdown rt ''UNCAUGHT_EXCEPTION'' s"
| "on_process_event rt UnhandledRejection s = gracefulShutdown rt ''UNHANDLED_REJECTION'' s"

section \<open>Example values\<close>

text \<open>
  A server with three registered sessions, each with an open upstream socket, and a
  runtime in which closing the second client socket throws while the other two close
  calls return.
\<close>

definition example_config :: config where
  "example_config = \<lparr>deepgramApiKey = ''KEY''\<rparr>"

definition example_upstream :: upstream where
  "example_upstream =
     \<lparr>up_url = buildDeepgramUrl example_config [], up_readyState = OPEN, up_calls = []\<rparr>"

definition example_connection :: "nat \<Rightarrow> connection" where
  "example_connection ws =
     \<lparr>data_queryParams = [], data_deepgramWs = Some example_upstream,
      deepgramMessageCount = 0, client_calls = [], client_channel = ChannelOpen\<rparr>"

definition example_server :: server where
  "example_server =
     \<lparr>activeConnections = [0, 1, 2], connections = example_connection,
      websockets_created = replicate 3 (buildDeepgramUrl example_config []),
      server_stopped = False, exit_code = None\<rparr>"

definition example_runtime :: "nat \<Rightarrow> close_outcome" where
  "example_runtime ws = (if ws = 1 then Throws 1000 [] else Returns 1000 [])"

definition example_verify :: "string \<Rightarrow> bool" where
  "example_verify token = (token = ''good'' \<or> token = ''fine'')"

definition example_request :: request where
  "example_request =
     \<lparr>req_method = ''GET'', req_pathname = ''/api/live-transcription'',
      req_searchParams = [(''model'', ''nova-2''), (''language'', ''''), (''punctuate'', ''true'')],
      req_protocols = Some ''chat, access_token.bad ,access_token.good''\<rparr>"

section \<open>Query strings: decoding inverts encoding\<close>

lemma hex_val_hex_digit: "n < 16 \<Longrightarrow> hex_val (hex_digit n) = Some n"
  by (auto simp: hex_val_def hex_digit_def Let_def)

lemma hex_digit_not_separator:
  "n < 16 \<Longrightarrow> hex_digit n \<noteq> CHR ''&'' \<and> hex_digit n \<noteq> CHR ''=''"
  by (auto simp: hex_digit_def char_of_eq_iff take_bit_eq_mod)

lemma safe_not_special:
  "is_urlencoded_safe c \<Longrightarrow>
     c \<noteq> CHR ''+'' \<and> c \<noteq> CHR ''%'' \<and> c \<noteq> CHR ''&'' \<and> c \<noteq> CHR ''=''"
  by (auto simp: is_urlencoded_safe_def is_alnum_def)

lemma high_nibble_bound: "(of_char c :: nat) div 16 < 16"
proof -
  have "(of_char c :: nat) < 256" by simp
  then show ?thesis by linarith
qed

lemma urldecode_byte: "urldecode (urlencode_byte c @ rest) = c # urldecode rest"
proof (cases "c = CHR '' ''")
  case True
  then show ?thesis by (simp add: urlencode_byte_def)
next
  case False
  show ?thesis
  proof (cases "is_urlencoded_safe c")
    case True
    with False safe_not_special[of c] show ?thesis
      by (simp add: urlencode_byte_def)
  next
    case unsafe: False
    have "urlencode_byte c = [CHR ''%'', hex_digit ((of_char c :: nat) div 16),
            hex_digit ((of_char c :: nat) mod 16)]"
      using False unsafe by (simp add: urlencode_byte_def)
    then show ?thesis
      by (simp add: hex_val_hex_digit high_nibble_bound)
  qed
qed

lemma urldecode_urlencode_append: "urldecode (urlencode s @ rest) = s @ urldecode rest"
  by (induction s) (simp_all add: urlencode_def urldecode_byte del: urldecode.simps)

lemma urldecode_urlencode: "urldecode (urlencode s) = s"
  using urldecode_urlencode_append[of s "[]"] by simp

lemma urlencode_byte_no_separator:
  "CHR ''&'' \<notin> set (urlencode_byte c) \<and> CHR ''='' \<notin> set (urlencode_byte c)"
  using safe_not_special[of c] hex_digit_not_separator[of "(of_char c :: nat) div 16"]
    hex_digit_not_separator[of "(of_char c :: nat) mod 16"] high_nibble_bound[of c]
  by (auto simp: urlencode_byte_def)

lemma urlencode_no_separator:
  "CHR ''&'' \<notin> set (urlencode s) \<and> CHR ''='' \<notin> set (urlencode s)"
  using urlencode_byte_no_separator by (induction s) (auto simp: urlencode_def)

lemma split_on_first:
  "d \<notin> set a \<Longrightarrow> split_on d (a @ d # b) = a # split_on d b"
  by (induction a) (auto split: list.splits)

lemma split_on_absent: "d \<notin> set a \<Longrightarrow> split_on d a = [a]"
  by (induction a) (auto split: list.splits)

lemma takeWhile_until:
  "d \<notin> set a \<Longrightarrow> takeWhile (\<lambda>c. c \<noteq> d) (a @ d # b) = a"
  by (induction a) auto

lemma dropWhile_until:
  "d \<notin> set a \<Longrightarrow> dropWhile (\<lambda>c. c \<noteq> d) (a @ d # b) = d # b"
  by (induction a) auto

lemma parse_pair_encoded:
  "parse_pair (urlencode k @ ''='' @ urlencode v) = (k, v)"
proof -
  have k: "CHR ''='' \<notin> set (urlencode k)" by (simp add: urlencode_no_separator)
  show ?thesis
    using takeWhile_until[OF k, of "urlencode v"] dropWhile_until[OF k, of "urlencode v"]
    by (simp add: parse_pair_def urldecode_urlencode)
qed

lemma parse_query_serialize_params: "parse_query (serialize_params ps) = ps"
proof (induction ps rule: serialize_params.induct)
  case 1
  then show ?case by (simp add: parse_query_def)
next
  case (2 k v)
  have "CHR ''&'' \<notin> set (urlencode k @ ''='' @ urlencode v)"
    by (simp add: urlencode_no_separator)
  then have "split_on (CHR ''&'') (urlencode k @ ''='' @ urlencode v)
      = [urlencode k @ ''='' @ urlencode v]"
    by (rule split_on_absent)
  then show ?case using parse_pair_encoded[of k v] by (simp add: parse_query_def)
next
  case (3 k v p ps)
  have "CHR ''&'' \<notin> set (urlencode k @ ''='' @ urlencode v)"
    by (simp add: urlencode_no_separator)
  then have "split_on (CHR ''&'')
        ((urlencode k @ ''='' @ urlencode v) @ CHR ''&'' # serialize_params (p # ps))
      = (urlencode k @ ''='' @ urlencode v) # split_on (CHR ''&'') (serialize_params (p # ps))"
    by (rule split_on_first)
  then show ?case using parse_pair_encoded[of k v] 3 by (simp add: parse_query_def)
qed

section \<open>The upstream URL builder\<close>

lemma searchParams_set_nonempty: "searchParams_set ps n v \<noteq> []"
  by (cases ps) (auto split: if_splits)

lemma set_optional_nonempty: "ps \<noteq> [] \<Longrightarrow> set_optional ps n x \<noteq> []"
  by (cases x) (simp_all add: set_optional_def searchParams_set_nonempty)

lemma buildDeepgramParams_nonempty: "buildDeepgramParams cfg qp \<noteq> []"
  by (simp add: buildDeepgramParams_def Let_def set_optional_nonempty searchParams_set_nonempty)

lemma url_query_buildDeepgramUrl:
  "url_query (buildDeepgramUrl cfg qp) = serialize_params (buildDeepgramParams cfg qp)"
  by (simp add: buildDeepgramUrl_def url_toString_def buildDeepgramParams_nonempty
      url_query_def deepgramSttUrl_def)

lemma parse_query_buildDeepgramUrl:
  "parse_query (url_query (buildDeepgramUrl cfg qp)) = buildDeepgramParams cfg qp"
  by (simp only: url_query_buildDeepgramUrl parse_query_serialize_params)

lemma url_param_buildDeepgramUrl:
  "url_param (buildDeepgramUrl cfg qp) n = searchParams_get (buildDeepgramParams cfg qp) n"
  by (simp only: url_param_def parse_query_buildDeepgramUrl)

text \<open>The parameter list of the built URL, written out.\<close>

lemma buildDeepgramParams_explicit:
  "buildDeepgramParams cfg qp =
     [(''token'', deepgramApiKey cfg),
      (''model'', or_default (searchParams_get qp ''model'') ''nova-3''),
      (''language'', or_default (searchParams_get qp ''language'') ''en''),
      (''encoding'', or_default (searchParams_get qp ''encoding'') ''linear16''),
      (''sample_rate'', or_default (searchParams_get qp ''sample_rate'') ''16000''),
      (''channels'', or_default (searchParams_get qp ''channels'') ''1''),
      (''smart_format'', or_default (searchParams_get qp ''smart_format'') ''true'')]
     @ (case searchParams_get qp ''punctuate'' of None \<Rightarrow> [] | Some v \<Rightarrow> [(''punctuate'', v)])
     @ (case searchParams_get qp ''diarize'' of None \<Rightarrow> [] | Some v \<Rightarrow> [(''diarize'', v)])
     @ (case searchParams_get qp ''filler_words'' of None \<Rightarrow> [] | Some v \<Rightarrow> [(''filler_words'', v)])"
  by (simp add: buildDeepgramParams_def Let_def set_optional_def split: option.splits)

lemma urlencode_literals:
  "urlencode ''token'' = ''token''" "urlencode ''model'' = ''model''"
  "urlencode ''nova-3'' = ''nova-3''"
  "urlencode ''language'' = ''language''" "urlencode ''en'' = ''en''"
  "urlencode ''encoding'' = ''encoding''" "urlencode ''linear16'' = ''linear16''"
  "urlencode ''sample_rate'' = ''sample_rate''" "urlencode ''16000'' = ''16000''"
  "urlencode ''channels'' = ''channels''" "urlencode ''1'' = ''1''"
  "urlencode ''smart_format'' = ''smart_format''" "urlencode ''true'' = ''true''"
  by (simp_all add: urlencode_def urlencode_byte_def is_urlencoded_safe_def is_alnum_def)

lemma buildDeepgramUrl_empty_options:
  "buildDeepgramUrl cfg [] =
     ''wss://api.deepgram.com/v1/listen?token='' @ urlencode (deepgramApiKey cfg) @
     ''&model=nova-3&language=en&encoding=linear16&sample_rate=16000&channels=1&smart_format=true''"
  by (simp add: buildDeepgramUrl_def url_toString_def buildDeepgramParams_explicit
      deepgramSttUrl_def urlencode_literals)

text \<open>
  C2 (as amended).  Each required transcription parameter of the built URL (model,
  language, encoding, sample_rate, channels, smart_format) equals the value the client
  supplied when that value is not empty, and equals the documented default when the
  option is absent or supplied with an empty value; for empty options the URL is the
  endpoint followed by the token and the six defaults.
\<close>

theorem required_parameters_value_or_default:
  "(\<forall>(n, d) \<in> set [(''model'', ''nova-3''), (''language'', ''en''), (''encoding'', ''linear16''),
        (''sample_rate'', ''16000''), (''channels'', ''1''), (''smart_format'', ''true'')].
      (\<forall>v. searchParams_get qp n = Some v \<and> v \<noteq> [] \<longrightarrow>
           url_param (buildDeepgramUrl cfg qp) n = Some v) \<and>
      (searchParams_get qp n = None \<or> searchParams_get qp n = Some [] \<longrightarrow>
           url_param (buildDeepgramUrl cfg qp) n = Some d)) \<and>
   buildDeepgramUrl cfg [] =
     ''wss://api.deepgram.com/v1/listen?token='' @ urlencode (deepgramApiKey cfg) @
     ''&model=nova-3&language=en&encoding=linear16&sample_rate=16000&channels=1&smart_format=true''"
proof -
  have "\<forall>(n, d) \<in> set [(''model'', ''nova-3''), (''language'', ''en''), (''encoding'', ''linear16''),
        (''sample_rate'', ''16000''), (''channels'', ''1''), (''smart_format'', ''true'')].
      (\<forall>v. searchParams_get qp n = Some v \<and> v \<noteq> [] \<longrightarrow>
           url_param (buildDeepgramUrl cfg qp) n = Some v) \<and>
      (searchParams_get qp n = None \<or> searchParams_get qp n = Some [] \<longrightarrow>
           url_param (buildDeepgramUrl cfg qp) n = Some d)"
    by (auto simp add: url_param_buildDeepgramUrl buildDeepgramParams_explicit)
  then show ?thesis using buildDeepgramUrl_empty_options[of cfg] by blast
qed

text \<open>An instance, at the options \<open>model=nova-2&language=&punctuate=true\<close>.\<close>

theorem required_parameters_value_or_default_witness:
  "url_param (buildDeepgramUrl example_config (req_searchParams example_request)) ''model''
     = Some ''nova-2'' \<and>
   url_param (buildDeepgramUrl example_config (req_searchParams example_request)) ''language''
     = Some ''en'' \<and>
   url_param (buildDeepgramUrl example_config (req_searchParams example_request)) ''channels''
     = Some ''1''"
  using required_parameters_value_or_default
          [of "req_searchParams example_request" example_config]
  by (simp add: example_request_def)

text \<open>
  An option that is present with an empty value does not reach the URL: the client
  supplied the empty string for \<open>model\<close>, and the URL carries \<open>nova-3\<close>.
\<close>

theorem required_parameter_empty_value_counterexample:
  "searchParams_get [(''model'', '''')] ''model'' = Some '''' \<and>
   url_param (buildDeepgramUrl example_config [(''model'', '''')]) ''model'' = Some ''nova-3'' \<and>
   url_param (buildDeepgramUrl example_config [(''model'', '''')]) ''model''
     \<noteq> searchParams_get [(''model'', '''')] ''model''"
  by (simp add: url_param_buildDeepgramUrl buildDeepgramParams_explicit)

text \<open>
  C3.  The built URL has a \<open>punctuate\<close>, \<open>diarize\<close> or \<open>filler_words\<close> parameter exactly
  when the client's options have one, with the client's value unchanged; the parameters
  of the URL are the token, the six required ones and those of the three optional ones
  that the client supplied, each once.
\<close>

theorem optional_parameters_passthrough:
  "url_param (buildDeepgramUrl cfg qp) ''punctuate'' = searchParams_get qp ''punctuate'' \<and>
   url_param (buildDeepgramUrl cfg qp) ''diarize'' = searchParams_get qp ''diarize'' \<and>
   url_param (buildDeepgramUrl cfg qp) ''filler_words'' = searchParams_get qp ''filler_words'' \<and>
   map fst (parse_query (url_query (buildDeepgramUrl cfg qp))) =
     [''token'', ''model'', ''language'', ''encoding'', ''sample_rate'', ''channels'',
      ''smart_format'']
     @ filter (\<lambda>n. searchParams_get qp n \<noteq> None) [''punctuate'', ''diarize'', ''filler_words'']"
  unfolding url_param_buildDeepgramUrl parse_query_buildDeepgramUrl
  by (simp add: buildDeepgramParams_explicit split: option.splits)

section \<open>The token validator and the upgrade gate\<close>

lemma find_as_filter:
  "find P xs = (case filter P xs of [] \<Rightarrow> None | x # _ \<Rightarrow> Some x)"
  by (induction xs) auto

lemma no_candidate_in_empty_header: "filter is_token_proto (protocol_list []) = []"
  by (simp add: protocol_list_def trim_def is_token_proto_def startsWith_def)

lemma validateWsToken_cases:
  "validateWsToken verify (Some p) =
     (case filter is_token_proto (protocol_list p) of
        [] \<Rightarrow> None
      | t # _ \<Rightarrow> if verify (token_of t) then Some t else None)"
proof (cases "p = []")
  case True
  then show ?thesis by (simp add: validateWsToken_def no_candidate_in_empty_header)
next
  case False
  then show ?thesis
    by (simp add: validateWsToken_def find_as_filter Let_def split: list.splits)
qed

lemma validateWsToken_absent: "validateWsToken verify None = None"
  by (simp add: validateWsToken_def)

lemma validateWsToken_Some_nonempty:
  assumes "validateWsToken verify h = Some v"
  shows "v \<noteq> []"
proof (cases h)
  case None
  with assms show ?thesis by (simp add: validateWsToken_absent)
next
  case (Some p)
  have "is_token_proto v"
  proof (cases "filter is_token_proto (protocol_list p)")
    case Nil
    with assms Some show ?thesis by (simp add: validateWsToken_cases)
  next
    case (Cons t rest)
    then have "t \<in> set (filter is_token_proto (protocol_list p))" by simp
    then have "is_token_proto t" by simp
    moreover from assms Some Cons have "v = t"
      by (simp add: validateWsToken_cases split: if_splits)
    ultimately show ?thesis by simp
  qed
  then show ?thesis by (auto simp: is_token_proto_def startsWith_def)
qed

lemma fetch_rejects_unauthenticated:
  assumes "req_pathname req = ''/api/live-transcription''" and "req_method req \<noteq> ''OPTIONS''"
    and "validateWsToken verify (req_protocols req) = None"
  shows "fetch verify upgrade_ok req = Response 401 ''Unauthorized''"
  using assms by (simp add: fetch_def)

lemma example_candidates:
  "filter is_token_proto (protocol_list ''chat, access_token.bad ,access_token.good'')
     = [''access_token.bad'', ''access_token.good'']"
  by (simp add: protocol_list_def trim_def is_js_whitespace_def is_token_proto_def startsWith_def)

lemma example_accepted_request:
  "websockets_created (snd (serve_request example_config example_verify True 3
       (example_request\<lparr>req_protocols := Some ''access_token.good''\<rparr>) example_server))
     = websockets_created example_server
         @ [buildDeepgramUrl example_config (req_searchParams example_request)]"
  by (simp add: serve_request_def fetch_def example_request_def validateWsToken_cases
      protocol_list_def trim_def is_js_whitespace_def is_token_proto_def startsWith_def
      example_verify_def token_of_def websocket_open_def Let_def update_connection_def
      example_server_def new_connection_def)

text \<open>
  An upstream socket is constructed by \<open>websocket.open\<close> only: the other handlers and
  the shutdown routine leave the list of constructed sockets as it is.
\<close>

lemma handlers_construct_no_upstream:
  "websockets_created (websocket_message w m s) = websockets_created s"
  "websockets_created (websocket_close w c r s) = websockets_created s"
  "websockets_created (deepgramWs_on_open w s) = websockets_created s"
  "websockets_created (deepgramWs_on_message w m s) = websockets_created s"
  "websockets_created (deepgramWs_on_error w s) = websockets_created s"
  "websockets_created (deepgramWs_on_close w c r s) = websockets_created s"
  by (simp_all add: websocket_message_def websocket_close_def deepgramWs_on_open_def
      deepgramWs_on_message_def deepgramWs_on_error_def deepgramWs_on_close_def
      update_connection_def Let_def split: option.splits)

lemma try_close_constructs_no_upstream:
  "websockets_created (try_close rt w s) = websockets_created s"
  by (simp add: try_close_def Let_def handlers_construct_no_upstream update_connection_def
      split: close_outcome.splits)

lemma forEach_close_constructs_no_upstream:
  "websockets_created (forEach_close rt xs s) = websockets_created s"
  by (induction xs arbitrary: s) (simp_all add: try_close_constructs_no_upstream)

lemma shutdown_constructs_no_upstream:
  "websockets_created (on_process_event rt ev s) = websockets_created s"
  by (cases ev) (simp_all add: gracefulShutdown_def Let_def forEach_close_constructs_no_upstream)

text \<open>
  C8.  The validator's result is determined by the header value and the verification
  function.  Without a header, or without an entry that starts with \<open>access_token.\<close>, it
  is the failure value; otherwise only the first such entry is looked at: the result is
  that whole entry when its token verifies and the same failure value when it does not,
  whatever the later entries are.
\<close>

theorem validateWsToken_first_candidate:
  "validateWsToken verify None = None \<and>
   (filter is_token_proto (protocol_list p) = [] \<longrightarrow> validateWsToken verify (Some p) = None) \<and>
   (\<forall>t rest. filter is_token_proto (protocol_list p) = t # rest \<longrightarrow>
      validateWsToken verify (Some p) = (if verify (token_of t) then Some t else None))"
  by (simp add: validateWsToken_cases validateWsToken_absent)

text \<open>
  An instance, at the header \<open>chat, access_token.bad ,access_token.good\<close>: the first
  candidate fails verification, and the valid second one is not considered.
\<close>

theorem validateWsToken_first_candidate_witness:
  "filter is_token_proto (protocol_list ''chat, access_token.bad ,access_token.good'')
     = ''access_token.bad'' # [''access_token.good''] \<and>
   example_verify (token_of ''access_token.good'') \<and>
   validateWsToken example_verify (Some ''chat, access_token.bad ,access_token.good'') = None"
  using validateWsToken_first_candidate
          [of example_verify "''chat, access_token.bad ,access_token.good''"]
  by (simp add: example_candidates example_verify_def token_of_def)

text \<open>
  C1.  A WebSocket upgrade request is a GET request.  When such a request for the
  live-transcription path has no negotiation header, or a header without an
  \<open>access_token.\<close> entry, or one whose first such entry fails verification, the answer is
  401 and the server state is unchanged: no client socket is created, \<open>websocket.open\<close>
  does not run, and no upstream socket is constructed.  No other handler constructs one
  either, so none is constructed for this request later.
\<close>

theorem unauthenticated_upgrade_rejected:
  assumes "req_pathname req = ''/api/live-transcription''" and "req_method req \<noteq> ''OPTIONS''"
    and "req_protocols req = None \<or>
         (\<exists>p. req_protocols req = Some p \<and>
            (filter is_token_proto (protocol_list p) = [] \<or>
             (\<exists>t rest. filter is_token_proto (protocol_list p) = t # rest \<and>
                 \<not> verify (token_of t))))"
  shows "serve_request cfg verify upgrade_ok ws req s = (Response 401 ''Unauthorized'', s) \<and>
         websockets_created (snd (serve_request cfg verify upgrade_ok ws req s))
           = websockets_created s \<and>
         websockets_created (websocket_message w m s) = websockets_created s \<and>
         websockets_created (websocket_close w c r s) = websockets_created s \<and>
         websockets_created (deepgramWs_on_open w s) = websockets_created s \<and>
         websockets_created (deepgramWs_on_message w m s) = websockets_created s \<and>
         websockets_created (deepgramWs_on_error w s) = websockets_created s \<and>
         websockets_created (deepgramWs_on_close w c r s) = websockets_created s \<and>
         websockets_created (on_process_event rt ev s) = websockets_created s"
proof -
  have "validateWsToken verify (req_protocols req) = None"
    using assms(3) by (auto simp: validateWsToken_cases validateWsToken_absent)
  with assms(1,2) have "fetch verify upgrade_ok req = Response 401 ''Unauthorized''"
    by (simp add: fetch_rejects_unauthenticated)
  then have "serve_request cfg verify upgrade_ok ws req s = (Response 401 ''Unauthorized'', s)"
    by (simp add: serve_request_def)
  then show ?thesis
    by (simp add: handlers_construct_no_upstream shutdown_constructs_no_upstream)
qed

text \<open>
  An instance: a GET request whose first \<open>access_token.\<close> entry fails verification,
  arriving while three sessions are registered.
\<close>

theorem unauthenticated_upgrade_rejected_witness:
  "serve_request example_config example_verify True 3 example_request example_server
     = (Response 401 ''Unauthorized'', example_server)"
proof -
  have p: "req_pathname example_request = ''/api/live-transcription''"
    and m: "req_method example_request \<noteq> ''OPTIONS''"
    by (simp_all add: example_request_def)
  have "filter is_token_proto (protocol_list ''chat, access_token.bad ,access_token.good'')
          = ''access_token.bad'' # [''access_token.good'']
        \<and> \<not> example_verify (token_of ''access_token.bad'')"
    by (simp add: example_candidates example_verify_def token_of_def)
  then have h: "req_protocols example_request = None \<or>
         (\<exists>p. req_protocols example_request = Some p \<and>
            (filter is_token_proto (protocol_list p) = [] \<or>
             (\<exists>t rest. filter is_token_proto (protocol_list p) = t # rest \<and>
                 \<not> example_verify (token_of t))))"
    by (simp add: example_request_def)
  from unauthenticated_upgrade_rejected[OF p m h, of example_config True 3 example_server]
  show ?thesis by (rule conjunct1)
qed

text \<open>
  C4.  The \<open>token\<close> parameter of the built URL is the server's upstream credential,
  whatever the client's options are (a \<open>token\<close> option of the client is ignored), and the
  credential that the client presented in the negotiation header does not reach the
  relay state: two requests that differ only in that header, both accepted, leave the
  same server state, hence construct the same upstream URL.
\<close>

theorem upstream_token_is_server_credential:
  "url_param (buildDeepgramUrl cfg qp) ''token'' = Some (deepgramApiKey cfg) \<and>
   url_param (buildDeepgramUrl cfg qp) ''token'' = url_param (buildDeepgramUrl cfg qp') ''token'' \<and>
   (validateWsToken verify h \<noteq> None \<and> validateWsToken verify h' \<noteq> None \<longrightarrow>
      snd (serve_request cfg verify upgrade_ok ws (req\<lparr>req_protocols := h\<rparr>) s)
        = snd (serve_request cfg verify upgrade_ok ws (req\<lparr>req_protocols := h'\<rparr>) s))"
proof -
  have tok: "\<And>q. url_param (buildDeepgramUrl cfg q) ''token'' = Some (deepgramApiKey cfg)"
    by (simp add: url_param_buildDeepgramUrl buildDeepgramParams_explicit)
  have flow: "snd (serve_request cfg verify upgrade_ok ws (req\<lparr>req_protocols := h\<rparr>) s)
        = snd (serve_request cfg verify upgrade_ok ws (req\<lparr>req_protocols := h'\<rparr>) s)"
    if "validateWsToken verify h \<noteq> None" "validateWsToken verify h' \<noteq> None"
  proof -
    from that obtain v v' where v: "validateWsToken verify h = Some v"
      "validateWsToken verify h' = Some v'"
      by auto
    then have "v \<noteq> []" "v' \<noteq> []" by (auto dest: validateWsToken_Some_nonempty)
    with v show ?thesis
      by (simp add: serve_request_def fetch_def handlePreflight_def handleHealth_def)
  qed
  from tok flow show ?thesis by simp
qed

text \<open>
  An instance: two requests that present different valid credentials; the upstream URL
  that is constructed is the one built from the query alone.
\<close>

theorem upstream_token_is_server_credential_witness:
  "url_param (buildDeepgramUrl example_config [(''token'', ''client'')]) ''token'' = Some ''KEY'' \<and>
   websockets_created (snd (serve_request example_config example_verify True 3
       (example_request\<lparr>req_protocols := Some ''access_token.fine''\<rparr>) example_server))
     = websockets_created example_server
         @ [buildDeepgramUrl example_config (req_searchParams example_request)]"
proof -
  have a: "validateWsToken example_verify (Some ''access_token.good'') \<noteq> None"
    and b: "validateWsToken example_verify (Some ''access_token.fine'') \<noteq> None"
    by (simp_all add: validateWsToken_cases protocol_list_def trim_def is_js_whitespace_def
        is_token_proto_def startsWith_def example_verify_def token_of_def)
  from a b upstream_token_is_server_credential
      [of example_config "[(''token'', ''client'')]" "[]" example_verify
          "Some ''access_token.good''" "Some ''access_token.fine''" True 3 example_request
          example_server]
  have "url_param (buildDeepgramUrl example_config [(''token'', ''client'')]) ''token''
          = Some ''KEY''"
    and "snd (serve_request example_config example_verify True 3
           (example_request\<lparr>req_protocols := Some ''access_token.good''\<rparr>) example_server)
       = snd (serve_request example_config example_verify True 3
           (example_request\<lparr>req_protocols := Some ''access_token.fine''\<rparr>) example_server)"
    by (simp_all add: example_config_def)
  with example_accepted_request show ?thesis by simp
qed


section \<open>Relay session handlers\<close>

lemma client_close_channel:
  "client_channel (client_close args conn) =
     (case client_channel conn of
        ChannelOpen \<Rightarrow> ChannelClosed args
      | ChannelClosed first \<Rightarrow> ChannelClosed first)"
  by (simp add: client_close_def client_call_def)

lemma client_close_calls:
  "client_calls (client_close args conn) = client_calls conn @ [CloseCall args]"
  by (simp add: client_close_def client_call_def)

text \<open>What one upstream event does to the client channel.\<close>

lemma deepgramWs_listener_channel:
  "client_channel (connections (deepgramWs_listener ws e s) ws) =
     (case client_channel (connections s ws) of
        ChannelClosed first \<Rightarrow> ChannelClosed first
      | ChannelOpen \<Rightarrow>
          (case e of
             UpstreamError \<Rightarrow> ChannelClosed (Some (1011, ''Deepgram connection error''))
           | UpstreamClose code reason \<Rightarrow> ChannelClosed (Some (code, reason))
           | _ \<Rightarrow> ChannelOpen))"
  by (cases e)
     (simp_all add: deepgramWs_on_open_def deepgramWs_on_message_def deepgramWs_on_error_def
        deepgramWs_on_close_def update_connection_def client_close_channel client_call_def
        split: channel.splits)

lemma upstream_events_append:
  "upstream_events ws (es @ es') s = upstream_events ws es' (upstream_events ws es s)"
  by (induction es arbitrary: s) simp_all

lemma closed_channel_stays_closed:
  "client_channel (connections s ws) = ChannelClosed first \<Longrightarrow>
     client_channel (connections (upstream_events ws es s) ws) = ChannelClosed first"
proof (induction es arbitrary: s)
  case Nil
  then show ?case by simp
next
  case (Cons e es)
  from Cons.prems
  have "client_channel (connections (deepgramWs_listener ws e s) ws) = ChannelClosed first"
    by (simp add: deepgramWs_listener_channel)
  then show ?case using Cons.IH by simp
qed

lemma open_channel_stays_open:
  "client_channel (connections s ws) = ChannelOpen \<Longrightarrow>
   \<forall>e \<in> set es. \<not> is_closing_event e \<Longrightarrow>
     client_channel (connections (upstream_events ws es s) ws) = ChannelOpen"
proof (induction es arbitrary: s)
  case Nil
  then show ?case by simp
next
  case (Cons e es)
  from Cons.prems have "\<not> is_closing_event e" by simp
  with Cons.prems(1) deepgramWs_listener_channel[of ws e s]
  have "client_channel (connections (deepgramWs_listener ws e s) ws) = ChannelOpen"
    by (cases e) simp_all
  moreover from Cons.prems have "\<forall>e \<in> set es. \<not> is_closing_event e" by simp
  ultimately show ?case using Cons.IH by simp
qed

text \<open>
  C5 (as amended).  For every close event of the upstream socket with code \<open>c\<close> and
  reason \<open>r\<close>, the relay calls \<open>close\<close> on the client socket with exactly \<open>c\<close> and \<open>r\<close>.
  When no error or close event of the upstream came before, so that the client channel
  is still open, this is the call that closes the client channel, and its arguments are
  exactly \<open>c\<close> and \<open>r\<close>.  A client channel that is already closed keeps the arguments of
  the call that closed it: after an upstream error event these are 1011 and
  \<open>Deepgram connection error\<close>, whatever the close event that follows carries.  Which
  status the runtime writes into the close frame for a code that cannot travel in one
  (1005, 1006) is not decided by the relay.
\<close>

theorem upstream_close_propagated_to_open_client:
  "client_calls (connections (deepgramWs_on_close ws c r s) ws)
     = client_calls (connections s ws) @ [CloseCall (Some (c, r))] \<and>
   (client_channel (connections s ws) = ChannelOpen \<and> (\<forall>e \<in> set es. \<not> is_closing_event e) \<longrightarrow>
      client_channel (connections (upstream_events ws (es @ [UpstreamClose c r]) s) ws)
        = ChannelClosed (Some (c, r))) \<and>
   (\<forall>first. client_channel (connections s ws) = ChannelClosed first \<longrightarrow>
      client_channel (connections (deepgramWs_on_close ws c r s) ws) = ChannelClosed first) \<and>
   (client_channel (connections s ws) = ChannelOpen \<longrightarrow>
      client_channel (connections (upstream_events ws [UpstreamError, UpstreamClose c r] s) ws)
        = ChannelClosed (Some (1011, ''Deepgram connection error'')))"
proof -
  have calls: "client_calls (connections (deepgramWs_on_close ws c r s) ws)
     = client_calls (connections s ws) @ [CloseCall (Some (c, r))]"
    by (simp add: deepgramWs_on_close_def update_connection_def client_close_calls)
  have first_close: "client_channel (connections (upstream_events ws (es @ [UpstreamClose c r]) s) ws)
        = ChannelClosed (Some (c, r))"
    if "client_channel (connections s ws) = ChannelOpen" "\<forall>e \<in> set es. \<not> is_closing_event e"
  proof -
    from that have "client_channel (connections (upstream_events ws es s) ws) = ChannelOpen"
      by (rule open_channel_stays_open)
    then show ?thesis
      using deepgramWs_listener_channel[of ws "UpstreamClose c r" "upstream_events ws es s"]
      by (simp add: upstream_events_append)
  qed
  have stays: "client_channel (connections (deepgramWs_on_close ws c r s) ws) = ChannelClosed first"
    if "client_channel (connections s ws) = ChannelClosed first" for first
    using that deepgramWs_listener_channel[of ws "UpstreamClose c r" s] by simp
  have after_error: "client_channel
        (connections (upstream_events ws [UpstreamError, UpstreamClose c r] s) ws)
        = ChannelClosed (Some (1011, ''Deepgram connection error''))"
    if "client_channel (connections s ws) = ChannelOpen"
  proof -
    from that deepgramWs_listener_channel[of ws UpstreamError s]
    have "client_channel (connections (deepgramWs_listener ws UpstreamError s) ws)
        = ChannelClosed (Some (1011, ''Deepgram connection error''))"
      by simp
    then show ?thesis
      using closed_channel_stays_closed[of "deepgramWs_listener ws UpstreamError s" ws _
          "[UpstreamClose c r]"]
      by simp
  qed
  from calls first_close stays after_error show ?thesis by blast
qed

text \<open>
  An instance: after the handshake and one message, the upstream closes with code 1011
  and reason \<open>server error\<close> while the client channel is open.
\<close>

theorem upstream_close_propagated_to_open_client_witness:
  "client_channel (connections example_server 0) = ChannelOpen \<and>
   client_channel (connections
      (upstream_events 0
         [UpstreamOpen, UpstreamMessage (TextData ''{}''), UpstreamClose 1011 ''server error'']
         example_server) 0)
     = ChannelClosed (Some (1011, ''server error''))"
proof -
  have o: "client_channel (connections example_server 0) = ChannelOpen"
    by (simp add: example_server_def example_connection_def)
  have n: "\<forall>e \<in> set [UpstreamOpen, UpstreamMessage (TextData ''{}'')]. \<not> is_closing_event e"
    by simp
  from upstream_close_propagated_to_open_client
         [of 0 1011 "''server error''" example_server
             "[UpstreamOpen, UpstreamMessage (TextData ''{}'')]"] o n
  have "client_channel (connections
      (upstream_events 0
         ([UpstreamOpen, UpstreamMessage (TextData ''{}'')] @ [UpstreamClose 1011 ''server error''])
         example_server) 0)
     = ChannelClosed (Some (1011, ''server error''))"
    by blast
  with o show ?thesis by simp
qed

text \<open>
  The client channel is not always closed with the upstream's code and reason: when the
  upstream connection fails, its error event comes first and the relay closes the client
  with 1011; the close event that follows carries 1006, and the client channel is not
  closed with 1006.
\<close>

theorem upstream_close_after_error_counterexample:
  "client_channel (connections example_server 0) = ChannelOpen \<and>
   client_channel (connections
      (upstream_events 0 [UpstreamError, UpstreamClose 1006 []] example_server) 0)
     = ChannelClosed (Some (1011, ''Deepgram connection error'')) \<and>
   client_channel (connections
      (upstream_events 0 [UpstreamError, UpstreamClose 1006 []] example_server) 0)
     \<noteq> ChannelClosed (Some (1006, []))"
  by (simp add: deepgramWs_on_error_def deepgramWs_on_close_def update_connection_def
      client_close_def client_call_def example_server_def example_connection_def)

text \<open>
  C6.  The client close handler removes the socket from \<open>activeConnections\<close> (and only
  that socket), and when the upstream socket exists and is open it calls \<open>close\<close> on it
  with code 1000 and the fixed reason \<open>Client disconnected\<close>, whatever code and reason
  the client's own close event carried.
\<close>

theorem client_close_deregisters_and_closes_open_upstream:
  "ws \<notin> set (activeConnections (websocket_close ws code reason s)) \<and>
   set (activeConnections (websocket_close ws code reason s)) = set (activeConnections s) - {ws} \<and>
   (\<forall>u. data_deepgramWs (connections s ws) = Some u \<and> up_readyState u = OPEN \<longrightarrow>
      data_deepgramWs (connections (websocket_close ws code reason s) ws)
        = Some (u\<lparr>up_calls := up_calls u @ [CloseCall (Some (1000, ''Client disconnected''))]\<rparr>))"
  by (auto simp: websocket_close_def Let_def set_delete_def update_connection_def upstream_call_def
      split: option.splits)

text \<open>An instance: the second of three sessions, closed by the client with code 1001.\<close>

theorem client_close_deregisters_and_closes_open_upstream_witness:
  "data_deepgramWs (connections example_server 1) = Some example_upstream \<and>
   up_readyState example_upstream = OPEN \<and>
   activeConnections (websocket_close 1 1001 ''going away'' example_server) = [0, 2] \<and>
   data_deepgramWs (connections (websocket_close 1 1001 ''going away'' example_server) 1)
     = Some (example_upstream\<lparr>up_calls := [CloseCall (Some (1000, ''Client disconnected''))]\<rparr>)"
proof -
  have u: "data_deepgramWs (connections example_server 1) = Some example_upstream"
    and o: "up_readyState example_upstream = OPEN"
    and e: "up_calls example_upstream = []"
    by (simp_all add: example_server_def example_connection_def example_upstream_def)
  have r: "activeConnections (websocket_close 1 1001 ''going away'' example_server) = [0, 2]"
    by (simp add: websocket_close_def Let_def set_delete_def example_server_def
        example_connection_def example_upstream_def update_connection_def)
  from client_close_deregisters_and_closes_open_upstream
         [of 1 1001 "''going away''" example_server] u o
  have "data_deepgramWs (connections (websocket_close 1 1001 ''going away'' example_server) 1)
     = Some (example_upstream\<lparr>up_calls :=
          up_calls example_upstream @ [CloseCall (Some (1000, ''Client disconnected''))]\<rparr>)"
    by blast
  with u o e r show ?thesis by simp
qed

text \<open>
  C7.  A client message is handed to the upstream socket exactly when that socket
  exists and its \<open>readyState\<close> is \<open>OPEN\<close>: then \<open>send\<close> is called on it with the message.
  In every other case (no upstream socket yet, or one that is connecting, closing or
  closed) the server state after the handler is the state before it, so the message is
  neither sent nor kept anywhere for later.
\<close>

theorem client_message_forwarded_iff_upstream_open:
  "(\<forall>u. data_deepgramWs (connections s ws) = Some u \<and> up_readyState u = OPEN \<longrightarrow>
      websocket_message ws m s =
        update_connection ws
          (\<lambda>c. c\<lparr>data_deepgramWs := Some (u\<lparr>up_calls := up_calls u @ [SendCall m]\<rparr>)\<rparr>) s) \<and>
   (data_deepgramWs (connections s ws) = None \<or>
    (\<exists>u. data_deepgramWs (connections s ws) = Some u \<and> up_readyState u \<noteq> OPEN) \<longrightarrow>
      websocket_message ws m s = s)"
  by (auto simp: websocket_message_def upstream_call_def split: option.splits)

text \<open>
  An instance: an audio frame is forwarded when the upstream socket is open, and has no
  effect when the same socket is still connecting.
\<close>

theorem client_message_forwarded_iff_upstream_open_witness:
  "data_deepgramWs (connections
      (websocket_message 0 (BinaryData ''audio'') example_server) 0)
     = Some (example_upstream\<lparr>up_calls := [SendCall (BinaryData ''audio'')]\<rparr>) \<and>
   websocket_message 0 (BinaryData ''audio'')
      (update_connection 0
         (\<lambda>c. c\<lparr>data_deepgramWs := Some (example_upstream\<lparr>up_readyState := CONNECTING\<rparr>)\<rparr>)
         example_server)
     = update_connection 0
         (\<lambda>c. c\<lparr>data_deepgramWs := Some (example_upstream\<lparr>up_readyState := CONNECTING\<rparr>)\<rparr>)
         example_server"
proof -
  let ?s = "update_connection 0
         (\<lambda>c. c\<lparr>data_deepgramWs := Some (example_upstream\<lparr>up_readyState := CONNECTING\<rparr>)\<rparr>)
         example_server"
  have u: "data_deepgramWs (connections example_server 0) = Some example_upstream"
    and o: "up_readyState example_upstream = OPEN"
    and e: "up_calls example_upstream = []"
    by (simp_all add: example_server_def example_connection_def example_upstream_def)
  have c: "\<exists>u. data_deepgramWs (connections ?s 0) = Some u \<and> up_readyState u \<noteq> OPEN"
    by (simp add: update_connection_def)
  from client_message_forwarded_iff_upstream_open[of example_server 0 "BinaryData ''audio''"] u o
  have 1: "websocket_message 0 (BinaryData ''audio'') example_server =
        update_connection 0
          (\<lambda>c. c\<lparr>data_deepgramWs := Some (example_upstream\<lparr>up_calls :=
              up_calls example_upstream @ [SendCall (BinaryData ''audio'')]\<rparr>)\<rparr>) example_server"
    by blast
  from client_message_forwarded_iff_upstream_open[of ?s 0 "BinaryData ''audio''"] c
  have 2: "websocket_message 0 (BinaryData ''audio'') ?s = ?s"
    by blast
  from 1 2 e show ?thesis by (simp add: update_connection_def)
qed

text \<open>
  C10.  When the client socket closes while the upstream socket is not open, in
  particular while it is still connecting, the close handler makes no call on the
  upstream socket and changes no connection: the upstream connection attempt is left to
  the runtime.
\<close>

theorem client_close_leaves_unopened_upstream:
  assumes "data_deepgramWs (connections s ws) = Some u" and "up_readyState u \<noteq> OPEN"
  shows "connections (websocket_close ws code reason s) = connections s \<and>
         data_deepgramWs (connections (websocket_close ws code reason s) ws) = Some u"
  using assms by (simp add: websocket_close_def Let_def)

text \<open>An instance: a session whose upstream socket is still connecting.\<close>

theorem client_close_leaves_unopened_upstream_witness:
  "up_readyState (example_upstream\<lparr>up_readyState := CONNECTING\<rparr>) \<noteq> OPEN \<and>
   data_deepgramWs (connections
     (websocket_close 0 1001 ''going away''
        (update_connection 0
           (\<lambda>c. c\<lparr>data_deepgramWs := Some (example_upstream\<lparr>up_readyState := CONNECTING\<rparr>)\<rparr>)
           example_server)) 0)
     = Some (example_upstream\<lparr>up_readyState := CONNECTING\<rparr>)"
proof -
  let ?u = "example_upstream\<lparr>up_readyState := CONNECTING\<rparr>"
  let ?s = "update_connection 0 (\<lambda>c. c\<lparr>data_deepgramWs := Some ?u\<rparr>) example_server"
  have a: "data_deepgramWs (connections ?s 0) = Some ?u"
    by (simp add: update_connection_def)
  have b: "up_readyState ?u \<noteq> OPEN" by simp
  from client_close_leaves_unopened_upstream[OF a b, of 1001 "''going away''"]
  have c: "data_deepgramWs (connections (websocket_close 0 1001 ''going away'' ?s) 0) = Some ?u"
    by (rule conjunct2)
  from b c show ?thesis by (rule conjI)
qed

section \<open>The shutdown routine\<close>

lemma websocket_close_fields:
  "activeConnections (websocket_close ws code reason s) = set_delete (activeConnections s) ws"
  "server_stopped (websocket_close ws code reason s) = server_stopped s"
  "exit_code (websocket_close ws code reason s) = exit_code s"
  "client_calls (connections (websocket_close ws code reason s) w) = client_calls (connections s w)"
  "client_channel (connections (websocket_close ws code reason s) w)
     = client_channel (connections s w)"
  by (simp_all add: websocket_close_def Let_def update_connection_def split: option.splits)

lemma websocket_close_upstream:
  "data_deepgramWs (connections (websocket_close ws code reason s) ws) =
     (case data_deepgramWs (connections s ws) of
        None \<Rightarrow> None
      | Some u \<Rightarrow>
          if up_readyState u = OPEN
          then Some (u\<lparr>up_calls := up_calls u @ [CloseCall (Some (1000, ''Client disconnected''))]\<rparr>)
          else Some u)"
  by (simp add: websocket_close_def Let_def update_connection_def upstream_call_def
      split: option.splits)

text \<open>One \<open>try { ws.close() }\<close>: what it does to the registry and to each connection.\<close>

lemma try_close_registry:
  "activeConnections (try_close rt ws s) = set_delete (activeConnections s) ws"
  by (simp add: try_close_def Let_def websocket_close_fields update_connection_def
      split: close_outcome.splits)

lemma try_close_flags:
  "server_stopped (try_close rt ws s) = server_stopped s"
  "exit_code (try_close rt ws s) = exit_code s"
  by (simp_all add: try_close_def Let_def websocket_close_fields update_connection_def
      split: close_outcome.splits)

lemma try_close_other:
  "w \<noteq> ws \<Longrightarrow> connections (try_close rt ws s) w = connections s w"
  by (simp add: try_close_def Let_def websocket_close_def update_connection_def
      split: close_outcome.splits option.splits)

lemma try_close_local:
  "connections s' w = connections s w \<Longrightarrow>
     connections (try_close rt w s') w = connections (try_close rt w s) w"
  by (simp add: try_close_def Let_def websocket_close_def update_connection_def
      split: close_outcome.splits option.splits)

lemma try_close_calls:
  "client_calls (connections (try_close rt ws s) ws)
     = client_calls (connections s ws) @ [CloseCall None]"
  by (simp add: try_close_def Let_def websocket_close_fields update_connection_def
      client_close_calls split: close_outcome.splits)

lemma try_close_channel:
  "client_channel (connections (try_close rt ws s) ws) \<noteq> ChannelOpen"
  by (simp add: try_close_def Let_def websocket_close_fields update_connection_def
      client_close_channel split: close_outcome.splits channel.splits)

lemma try_close_upstream:
  "data_deepgramWs (connections s ws) = Some u \<Longrightarrow> up_readyState u = OPEN \<Longrightarrow>
     data_deepgramWs (connections (try_close rt ws s) ws)
       = Some (u\<lparr>up_calls := up_calls u @ [CloseCall (Some (1000, ''Client disconnected''))]\<rparr>)"
  by (simp add: try_close_def Let_def websocket_close_upstream update_connection_def
      client_close_def client_call_def split: close_outcome.splits)

text \<open>
  The loop: a registered socket of the list is closed once, at its first occurrence
  (its handler removes it from the registry, so a later occurrence is skipped), and the
  outcome of one call has no influence on the others.
\<close>

lemma forEach_close_effect:
  "activeConnections (forEach_close rt xs s)
     = filter (\<lambda>w. w \<notin> set xs) (activeConnections s) \<and>
   (\<forall>w. connections (forEach_close rt xs s) w =
      (if w \<in> set xs \<and> w \<in> set (activeConnections s) then connections (try_close rt w s) w
       else connections s w))"
proof (induction xs arbitrary: s)
  case Nil
  then show ?case by simp
next
  case (Cons x xs)
  show ?case
  proof (cases "x \<in> set (activeConnections s)")
    case False
    have "filter (\<lambda>w. w \<notin> set xs) (activeConnections s)
        = filter (\<lambda>w. w \<notin> set (x # xs)) (activeConnections s)"
      using False by (intro filter_cong) auto
    with False Cons.IH[of s] show ?thesis by auto
  next
    case True
    let ?s1 = "try_close rt x s"
    have reg1: "activeConnections ?s1 = filter (\<lambda>y. y \<noteq> x) (activeConnections s)"
      by (simp add: try_close_registry set_delete_def)
    have run: "forEach_close rt (x # xs) s = forEach_close rt xs ?s1"
      using True by simp
    have reg: "activeConnections (forEach_close rt (x # xs) s)
        = filter (\<lambda>w. w \<notin> set (x # xs)) (activeConnections s)"
    proof -
      have "activeConnections (forEach_close rt xs ?s1)
          = filter (\<lambda>w. w \<notin> set xs) (filter (\<lambda>y. y \<noteq> x) (activeConnections s))"
        using Cons.IH[of ?s1] by (simp add: reg1)
      also have "\<dots> = filter (\<lambda>w. w \<notin> set (x # xs)) (activeConnections s)"
        by (simp add: conj_commute)
      finally show ?thesis by (simp only: run)
    qed
    have conns: "connections (forEach_close rt (x # xs) s) w =
        (if w \<in> set (x # xs) \<and> w \<in> set (activeConnections s)
         then connections (try_close rt w s) w else connections s w)" for w
    proof (cases "w = x")
      case same: True
      have "x \<notin> set (activeConnections ?s1)" by (simp add: reg1)
      then have "connections (forEach_close rt xs ?s1) x = connections ?s1 x"
        using Cons.IH[of ?s1] by simp
      with same True show ?thesis by (simp only: run) simp
    next
      case other: False
      then have keep: "connections ?s1 w = connections s w"
        by (simp add: try_close_other)
      have "connections (forEach_close rt xs ?s1) w =
          (if w \<in> set xs \<and> w \<in> set (activeConnections ?s1)
           then connections (try_close rt w ?s1) w else connections ?s1 w)"
        using Cons.IH[of ?s1] by simp
      moreover have "connections (try_close rt w ?s1) w = connections (try_close rt w s) w"
        using keep by (rule try_close_local)
      moreover have "w \<in> set (activeConnections ?s1) \<longleftrightarrow> w \<in> set (activeConnections s)"
        using other by (simp add: reg1)
      ultimately show ?thesis using other keep by (simp only: run) simp
    qed
    from reg conns show ?thesis by blast
  qed
qed

lemma forEach_close_flags:
  "server_stopped (forEach_close rt xs s) = server_stopped s \<and>
   exit_code (forEach_close rt xs s) = exit_code s"
  by (induction xs arbitrary: s) (simp_all add: try_close_flags)

lemma on_process_event_unfold:
  "on_process_event rt ev s =
     (forEach_close rt (activeConnections s) s)\<lparr>server_stopped := True, exit_code := Some 0\<rparr>"
  by (cases ev) (simp_all add: gracefulShutdown_def Let_def)

text \<open>
  C9.  A termination signal and an unhandled fault run the same shutdown routine.  It
  calls \<open>close()\<close> once on every registered client socket, also on those that come after
  a socket whose \<open>close()\<close> threw; every registered client channel ends closed, and an
  upstream socket that was open is closed with code 1000.  Then \<open>server.stop()\<close> has been
  called, the registry is empty, and the process exits with status 0.
\<close>

theorem shutdown_closes_every_session:
  "(\<forall>ws \<in> set (activeConnections s).
      client_calls (connections (on_process_event rt ev s) ws)
        = client_calls (connections s ws) @ [CloseCall None] \<and>
      client_channel (connections (on_process_event rt ev s) ws) \<noteq> ChannelOpen \<and>
      (\<forall>u. data_deepgramWs (connections s ws) = Some u \<and> up_readyState u = OPEN \<longrightarrow>
         data_deepgramWs (connections (on_process_event rt ev s) ws)
           = Some (u\<lparr>up_calls :=
                up_calls u @ [CloseCall (Some (1000, ''Client disconnected''))]\<rparr>))) \<and>
   server_stopped (on_process_event rt ev s) \<and>
   activeConnections (on_process_event rt ev s) = [] \<and>
   exit_code (on_process_event rt ev s) = Some 0 \<and>
   on_process_event rt ev s = on_process_event rt SIGTERM s"
proof -
  let ?s' = "forEach_close rt (activeConnections s) s"
  have reg: "activeConnections ?s' = []"
    using forEach_close_effect[of rt "activeConnections s" s] by simp
  have conn: "connections ?s' ws = connections (try_close rt ws s) ws"
    if "ws \<in> set (activeConnections s)" for ws
    using forEach_close_effect[of rt "activeConnections s" s] that by simp
  have each: "client_calls (connections ?s' ws) = client_calls (connections s ws) @ [CloseCall None] \<and>
      client_channel (connections ?s' ws) \<noteq> ChannelOpen \<and>
      (\<forall>u. data_deepgramWs (connections s ws) = Some u \<and> up_readyState u = OPEN \<longrightarrow>
         data_deepgramWs (connections ?s' ws)
           = Some (u\<lparr>up_calls :=
                up_calls u @ [CloseCall (Some (1000, ''Client disconnected''))]\<rparr>))"
    if "ws \<in> set (activeConnections s)" for ws
    using conn[OF that] by (simp add: try_close_calls try_close_channel try_close_upstream)
  have same: "on_process_event rt ev s = on_process_event rt SIGTERM s"
    by (simp only: on_process_event_unfold)
  from reg each same show ?thesis
    by (simp add: on_process_event_unfold)
qed

text \<open>
  An instance: three sessions where closing the second one throws, for an unhandled
  fault; the third socket is still closed, with its upstream socket, and the registry
  ends empty.
\<close>

theorem shutdown_closes_every_session_witness:
  "activeConnections example_server = [0, 1, 2] \<and>
   client_calls (connections (on_process_event example_runtime UncaughtException example_server) 2)
     = [CloseCall None] \<and>
   data_deepgramWs
       (connections (on_process_event example_runtime UncaughtException example_server) 2)
     = Some (example_upstream\<lparr>up_calls := [CloseCall (Some (1000, ''Client disconnected''))]\<rparr>) \<and>
   activeConnections (on_process_event example_runtime UncaughtException example_server) = [] \<and>
   server_stopped (on_process_event example_runtime UncaughtException example_server) \<and>
   exit_code (on_process_event example_runtime UncaughtException example_server) = Some 0"
proof -
  have r: "activeConnections example_server = [0, 1, 2]"
    and c: "client_calls (connections example_server 2) = []"
    and u: "data_deepgramWs (connections example_server 2) = Some example_upstream"
    and o: "up_readyState example_upstream = OPEN"
    and e: "up_calls example_upstream = []"
    by (simp_all add: example_server_def example_connection_def example_upstream_def)
  have m: "2 \<in> set (activeConnections example_server)"
    by (simp add: r)
  from shutdown_closes_every_session[of example_server example_runtime UncaughtException] m u o
  have "client_calls
          (connections (on_process_event example_runtime UncaughtException example_server) 2)
          = client_calls (connections example_server 2) @ [CloseCall None]"
    and "data_deepgramWs
          (connections (on_process_event example_runtime UncaughtException example_server) 2)
          = Some (example_upstream\<lparr>up_calls :=
               up_calls example_upstream @ [CloseCall (Some (1000, ''Client disconnected''))]\<rparr>)"
    and "activeConnections (on_process_event example_runtime UncaughtException example_server) = []"
    and "server_stopped (on_process_event example_runtime UncaughtException example_server)"
    and "exit_code (on_process_event example_runtime UncaughtException example_server) = Some 0"
    by blast+
  with r c e show ?thesis by simp
qed

end
